theory Spec2Isabelle
  imports Complex_Main
begin

section \<open>The notebook example.ipynb as a state-passing program\<close>

text \<open>
  The repository is one Jupyter notebook. Its code cells are run top to bottom in one kernel;
  the run stops at the first statement that raises. The notebook defines nothing of its own:
  every operation is a call of a function imported from \<^verbatim>\<open>miqsar\<close>, \<^verbatim>\<open>sklearn\<close>,
  \<^verbatim>\<open>seaborn\<close> or \<^verbatim>\<open>os\<close>, or of a Python builtin. The imported functions are not part of the
  repository, so they are parameters of the model (the record \<open>libs\<close>): each takes the
  outside world and returns a value or an exception together with the world it leaves
  behind. The import statements bind the names of that record; an environment in which a
  package is missing is outside the model.
\<close>

subsection \<open>Exceptions, the outside world, and the library interface\<close>

datatype py_error = FileExistsError | IndexError | ValueError | LibraryError string

record 'w world =
  paths :: "string set"
  stdout :: "string list"
  ext :: 'w

text \<open>Keyword arguments of the estimators' \<^verbatim>\<open>fit\<close> method.\<close>

record hyper =
  hp_n_epoch :: nat
  hp_batch_size :: nat
  hp_weight_decay :: real
  hp_lr :: real
  hp_instance_dropout :: "real option"

text \<open>
  Type parameters: \<open>'x\<close> a bag (the descriptor matrix of one molecule), \<open>'y\<close> a label,
  \<open>'i\<close> a molecule id, \<open>'e\<close> the state of an estimator object, \<open>'f\<close> a float,
  \<open>'a\<close> a matplotlib axes object, \<open>'w\<close> whatever else the libraries can observe.
\<close>

record ('x, 'y, 'i, 'e, 'f, 'a, 'w) libs =
  calc_3d_pmapper :: "string \<Rightarrow> nat \<Rightarrow> bool \<Rightarrow> string \<Rightarrow> nat \<Rightarrow> 'w world
      \<Rightarrow> (py_error + 'x list \<times> 'y list \<times> 'i list) \<times> 'w world"
  train_test_split :: "'x list \<Rightarrow> 'y list \<Rightarrow> 'i list \<Rightarrow> nat \<Rightarrow> 'w world
      \<Rightarrow> (py_error + 'x list \<times> 'x list \<times> 'y list \<times> 'y list \<times> 'i list \<times> 'i list) \<times> 'w world"
  scale_descriptors :: "'x list \<Rightarrow> 'x list \<Rightarrow> 'w world
      \<Rightarrow> (py_error + 'x list \<times> 'x list) \<times> 'w world"
  InstanceWrapperMLPRegressor :: "nat list \<Rightarrow> bool \<Rightarrow> 'w world \<Rightarrow> (py_error + 'e) \<times> 'w world"
  AttentionNetRegressor :: "nat list \<Rightarrow> nat list \<Rightarrow> bool \<Rightarrow> 'w world
      \<Rightarrow> (py_error + 'e) \<times> 'w world"
  fit :: "'e \<Rightarrow> 'x list \<Rightarrow> 'y list \<Rightarrow> hyper \<Rightarrow> 'w world \<Rightarrow> (py_error + 'e) \<times> 'w world"
  predict :: "'e \<Rightarrow> 'x list \<Rightarrow> 'w world \<Rightarrow> (py_error + 'y list) \<times> 'w world"
  get_instance_weights :: "'e \<Rightarrow> 'x list \<Rightarrow> 'w world \<Rightarrow> (py_error + 'f list list) \<times> 'w world"
  r2_score :: "'y list \<Rightarrow> 'y list \<Rightarrow> 'w world \<Rightarrow> (py_error + 'f) \<times> 'w world"
  sns_set :: "nat \<times> nat \<Rightarrow> 'w world \<Rightarrow> (py_error + unit) \<times> 'w world"
  sns_barplot :: "nat list \<Rightarrow> 'f list \<Rightarrow> 'w world \<Rightarrow> (py_error + 'a) \<times> 'w world"
  plot_set :: "'a \<Rightarrow> string \<Rightarrow> string \<Rightarrow> 'w world \<Rightarrow> (py_error + unit) \<times> 'w world"
  shape :: "'x \<Rightarrow> nat list"
  format_2f :: "'f \<Rightarrow> string"

subsection \<open>The log of calls\<close>

text \<open>
  Each call the notebook makes is logged with its arguments and its outcome, so that the
  order of the calls and the flow of data between them can be stated. Estimator objects
  are numbered in the order of their creation.
\<close>

datatype ('x, 'y, 'i, 'f) call =
    Mkdir string
  | Calc3dPmapper string nat bool string nat
  | Print string
  | TrainTestSplit "'x list" "'y list" "'i list" nat
  | ScaleDescriptors "'x list" "'x list"
  | NewInstanceWrapperMLPRegressor "nat list" bool
  | NewAttentionNetRegressor "nat list" "nat list" bool
  | Fit nat "'x list" "'y list" hyper
  | Predict nat "'x list"
  | GetInstanceWeights nat "'x list"
  | R2Score "'y list" "'y list"
  | SnsSet "nat \<times> nat"
  | SnsBarplot "nat list" "'f list"
  | PlotSet string string

datatype ('x, 'y, 'i, 'f) rv =
    RNone
  | RDescriptors "'x list" "'y list" "'i list"
  | RSplit "'x list" "'x list" "'y list" "'y list" "'i list" "'i list"
  | RScaled "'x list" "'x list"
  | RObject nat
  | RPredictions "'y list"
  | RWeights "'f list list"
  | RScore 'f
  | RAxes

datatype 'r outcome = Returned 'r | Raised py_error

type_synonym ('x, 'y, 'i, 'f) event = "('x, 'y, 'i, 'f) call \<times> ('x, 'y, 'i, 'f) rv outcome"

record ('x, 'y, 'i, 'f, 'w) kernel =
  trace :: "('x, 'y, 'i, 'f) event list"
  world :: "'w world"
  next_oid :: nat

subsection \<open>Sequencing with exceptions\<close>

type_synonym ('r, 'k) py = "'k \<Rightarrow> (py_error + 'r) \<times> 'k"

definition ret :: "'r \<Rightarrow> ('r, 'k) py" where
  "ret v k = (Inr v, k)"

definition raise :: "py_error \<Rightarrow> ('r, 'k) py" where
  "raise e k = (Inl e, k)"

definition bnd :: "('r, 'k) py \<Rightarrow> ('r \<Rightarrow> ('q, 'k) py) \<Rightarrow> ('q, 'k) py" where
  "bnd m f k = (case m k of (Inl e, k') \<Rightarrow> (Inl e, k') | (Inr v, k') \<Rightarrow> f v k')"

text \<open>A logged library call: the world is handed to the library and taken back.\<close>

definition lib :: "('x, 'y, 'i, 'f) call \<Rightarrow> ('w world \<Rightarrow> (py_error + 'r) \<times> 'w world)
    \<Rightarrow> ('r \<Rightarrow> ('x, 'y, 'i, 'f) rv) \<Rightarrow> ('r, ('x, 'y, 'i, 'f, 'w) kernel) py" where
  "lib c f tag k =
     (case f (world k) of
        (Inl e, w') \<Rightarrow> (Inl e, k\<lparr>trace := trace k @ [(c, Raised e)], world := w'\<rparr>)
      | (Inr v, w') \<Rightarrow> (Inr v, k\<lparr>trace := trace k @ [(c, Returned (tag v))], world := w'\<rparr>))"

text \<open>A logged constructor call: the new object gets the next object number.\<close>

definition construct :: "('x, 'y, 'i, 'f) call \<Rightarrow> ('w world \<Rightarrow> (py_error + 'e) \<times> 'w world)
    \<Rightarrow> (nat \<times> 'e, ('x, 'y, 'i, 'f, 'w) kernel) py" where
  "construct c f k =
     (case f (world k) of
        (Inl e, w') \<Rightarrow> (Inl e, k\<lparr>trace := trace k @ [(c, Raised e)], world := w'\<rparr>)
      | (Inr v, w') \<Rightarrow>
          (Inr (next_oid k, v),
           k\<lparr>trace := trace k @ [(c, Returned (RObject (next_oid k)))], world := w',
             next_oid := Suc (next_oid k)\<rparr>))"

subsection \<open>Python builtins and the standard library\<close>

text \<open>Indexing a sequence; a negative index counts from the end.\<close>

definition py_index :: "'v list \<Rightarrow> int \<Rightarrow> ('v, 'k) py" where
  "py_index xs i =
     (if 0 \<le> i \<and> i < int (length xs) then ret (xs ! nat i)
      else if i < 0 \<and> - i \<le> int (length xs) then ret (xs ! nat (int (length xs) + i))
      else raise IndexError)"

definition digit :: "nat \<Rightarrow> char" where
  "digit d = ''0123456789'' ! d"

fun show_nat :: "nat \<Rightarrow> string" where
  "show_nat n = (if n < 10 then [digit n] else show_nat (n div 10) @ [digit (n mod 10)])"

declare show_nat.simps [simp del]

text \<open>\<^verbatim>\<open>print(s)\<close>: one more line on standard output.\<close>

definition py_print :: "string \<Rightarrow> (unit, ('x, 'y, 'i, 'f, 'w) kernel) py" where
  "py_print s k =
     (Inr (), k\<lparr>trace := trace k @ [(Print s, Returned RNone)],
               world := (world k)\<lparr>stdout := stdout (world k) @ [s]\<rparr>\<rparr>)"

text \<open>\<^verbatim>\<open>os.path.join(a, *p)\<close> of \<^verbatim>\<open>posixpath\<close>.\<close>

fun os_path_join :: "string \<Rightarrow> string list \<Rightarrow> string" where
  "os_path_join path [] = path"
| "os_path_join path (b # p) =
     (if b \<noteq> [] \<and> hd b = CHR ''/'' then os_path_join b p
      else if path = [] \<or> last path = CHR ''/'' then os_path_join (path @ b) p
      else os_path_join (path @ ''/'' @ b) p)"

text \<open>
  \<^verbatim>\<open>os.mkdir(path)\<close> for a path in the working directory: it raises
  \<^verbatim>\<open>FileExistsError\<close> when the path exists and creates the directory otherwise.
  Other failures of the operating system (permissions, a full disk) are not modelled.
\<close>

definition os_mkdir :: "string \<Rightarrow> 'w world \<Rightarrow> (py_error + unit) \<times> 'w world" where
  "os_mkdir path w =
     (if path \<in> paths w then (Inl FileExistsError, w)
      else (Inr (), w\<lparr>paths := insert path (paths w)\<rparr>))"

subsection \<open>The library calls, logged\<close>

definition do_mkdir :: "string \<Rightarrow> (unit, ('x, 'y, 'i, 'f, 'w) kernel) py" where
  "do_mkdir path = lib (Mkdir path) (os_mkdir path) (\<lambda>_. RNone)"

definition do_calc_3d_pmapper :: "('x, 'y, 'i, 'e, 'f, 'a, 'w) libs \<Rightarrow> string \<Rightarrow> nat \<Rightarrow> bool
    \<Rightarrow> string \<Rightarrow> nat \<Rightarrow> ('x list \<times> 'y list \<times> 'i list, ('x, 'y, 'i, 'f, 'w) kernel) py" where
  "do_calc_3d_pmapper L file nc st path cpu =
     lib (Calc3dPmapper file nc st path cpu) (calc_3d_pmapper L file nc st path cpu)
       (\<lambda>(b, l, m). RDescriptors b l m)"

definition do_train_test_split :: "('x, 'y, 'i, 'e, 'f, 'a, 'w) libs \<Rightarrow> 'x list \<Rightarrow> 'y list
    \<Rightarrow> 'i list \<Rightarrow> nat
    \<Rightarrow> ('x list \<times> 'x list \<times> 'y list \<times> 'y list \<times> 'i list \<times> 'i list,
        ('x, 'y, 'i, 'f, 'w) kernel) py" where
  "do_train_test_split L b l m random_state =
     lib (TrainTestSplit b l m random_state) (train_test_split L b l m random_state)
       (\<lambda>(xtr, xte, ytr, yte, mtr, mte). RSplit xtr xte ytr yte mtr mte)"

definition do_scale_descriptors :: "('x, 'y, 'i, 'e, 'f, 'a, 'w) libs \<Rightarrow> 'x list \<Rightarrow> 'x list
    \<Rightarrow> ('x list \<times> 'x list, ('x, 'y, 'i, 'f, 'w) kernel) py" where
  "do_scale_descriptors L xtr xte =
     lib (ScaleDescriptors xtr xte) (scale_descriptors L xtr xte) (\<lambda>(a, b). RScaled a b)"

definition new_InstanceWrapperMLPRegressor :: "('x, 'y, 'i, 'e, 'f, 'a, 'w) libs \<Rightarrow> nat list
    \<Rightarrow> bool \<Rightarrow> (nat \<times> 'e, ('x, 'y, 'i, 'f, 'w) kernel) py" where
  "new_InstanceWrapperMLPRegressor L nd cuda =
     construct (NewInstanceWrapperMLPRegressor nd cuda) (InstanceWrapperMLPRegressor L nd cuda)"

definition new_AttentionNetRegressor :: "('x, 'y, 'i, 'e, 'f, 'a, 'w) libs \<Rightarrow> nat list
    \<Rightarrow> nat list \<Rightarrow> bool \<Rightarrow> (nat \<times> 'e, ('x, 'y, 'i, 'f, 'w) kernel) py" where
  "new_AttentionNetRegressor L nd dnd cuda =
     construct (NewAttentionNetRegressor nd dnd cuda) (AttentionNetRegressor L nd dnd cuda)"

text \<open>
  \<^verbatim>\<open>net.fit(x, y, ...)\<close> changes the object \<^verbatim>\<open>net\<close> in place; the model returns the object
  with its number kept and its state replaced.
\<close>

definition do_fit :: "('x, 'y, 'i, 'e, 'f, 'a, 'w) libs \<Rightarrow> nat \<times> 'e \<Rightarrow> 'x list \<Rightarrow> 'y list
    \<Rightarrow> hyper \<Rightarrow> (nat \<times> 'e, ('x, 'y, 'i, 'f, 'w) kernel) py" where
  "do_fit L net x y h =
     bnd (lib (Fit (fst net) x y h) (fit L (snd net) x y h) (\<lambda>_. RNone))
       (\<lambda>e. ret (fst net, e))"

definition do_predict :: "('x, 'y, 'i, 'e, 'f, 'a, 'w) libs \<Rightarrow> nat \<times> 'e \<Rightarrow> 'x list
    \<Rightarrow> ('y list, ('x, 'y, 'i, 'f, 'w) kernel) py" where
  "do_predict L net x = lib (Predict (fst net) x) (predict L (snd net) x) RPredictions"

definition do_get_instance_weights :: "('x, 'y, 'i, 'e, 'f, 'a, 'w) libs \<Rightarrow> nat \<times> 'e \<Rightarrow> 'x list
    \<Rightarrow> ('f list list, ('x, 'y, 'i, 'f, 'w) kernel) py" where
  "do_get_instance_weights L net x =
     lib (GetInstanceWeights (fst net) x) (get_instance_weights L (snd net) x) RWeights"

definition do_r2_score :: "('x, 'y, 'i, 'e, 'f, 'a, 'w) libs \<Rightarrow> 'y list \<Rightarrow> 'y list
    \<Rightarrow> ('f, ('x, 'y, 'i, 'f, 'w) kernel) py" where
  "do_r2_score L y_true y_pred = lib (R2Score y_true y_pred) (r2_score L y_true y_pred) RScore"

definition do_sns_set :: "('x, 'y, 'i, 'e, 'f, 'a, 'w) libs \<Rightarrow> nat \<times> nat
    \<Rightarrow> (unit, ('x, 'y, 'i, 'f, 'w) kernel) py" where
  "do_sns_set L figsize = lib (SnsSet figsize) (sns_set L figsize) (\<lambda>_. RNone)"

definition do_sns_barplot :: "('x, 'y, 'i, 'e, 'f, 'a, 'w) libs \<Rightarrow> nat list \<Rightarrow> 'f list
    \<Rightarrow> ('a, ('x, 'y, 'i, 'f, 'w) kernel) py" where
  "do_sns_barplot L x y = lib (SnsBarplot x y) (sns_barplot L x y) (\<lambda>_. RAxes)"

definition do_plot_set :: "('x, 'y, 'i, 'e, 'f, 'a, 'w) libs \<Rightarrow> 'a \<Rightarrow> string \<Rightarrow> string
    \<Rightarrow> (unit, ('x, 'y, 'i, 'f, 'w) kernel) py" where
  "do_plot_set L plot xlabel ylabel =
     lib (PlotSet xlabel ylabel) (plot_set L plot xlabel ylabel) (\<lambda>_. RNone)"

subsection \<open>The code cells\<close>

text \<open>Names bound to literals by the notebook.\<close>

definition nconfs :: nat where "nconfs = 100"
definition ncpu :: nat where "ncpu = 10"
definition dataset_file :: string where "dataset_file = ''datasets/CHEMBL1075104.smi''"
definition descriptors_folder :: string where
  "descriptors_folder = os_path_join ''descriptors'' []"
definition n_epoch :: nat where "n_epoch = 500"
definition batch_size :: nat where "batch_size = 128"
definition lr :: real where "lr = 1 / 1000"
definition weight_decay :: real where "weight_decay = 1 / 100"
definition seed :: nat where "seed = 42"
definition init_cuda :: bool where "init_cuda = False"
definition det_ndim :: "nat list" where "det_ndim = [64]"
definition instance_dropout :: real where "instance_dropout = 95 / 100"

text \<open>
  Code cell 1:
  \<^verbatim>\<open>os.mkdir(descriptors_folder)\<close>,
  \<^verbatim>\<open>bags, labels, molid = calc_3d_pmapper(dataset_file, nconfs=nconfs, stereo=False,
      path=descriptors_folder, ncpu=ncpu)\<close>,
  \<^verbatim>\<open>print(f'There are {len(bags)} molecules encoded with {bags[0].shape[1]} pmapper descriptors')\<close>.
\<close>

definition report :: "('x, 'y, 'i, 'e, 'f, 'a, 'w) libs \<Rightarrow> 'x list
    \<Rightarrow> (unit, ('x, 'y, 'i, 'f, 'w) kernel) py" where
  "report L bags =
     bnd (py_index bags 0) (\<lambda>bag0.
     bnd (py_index (shape L bag0) 1) (\<lambda>ndesc.
     py_print (''There are '' @ show_nat (length bags) @ '' molecules encoded with ''
               @ show_nat ndesc @ '' pmapper descriptors'')))"

definition cell_descriptors :: "('x, 'y, 'i, 'e, 'f, 'a, 'w) libs
    \<Rightarrow> ('x list \<times> 'y list \<times> 'i list, ('x, 'y, 'i, 'f, 'w) kernel) py" where
  "cell_descriptors L =
     bnd (do_mkdir descriptors_folder) (\<lambda>_.
     bnd (do_calc_3d_pmapper L dataset_file nconfs False descriptors_folder ncpu)
       (\<lambda>(bags, labels, molid).
     bnd (report L bags) (\<lambda>_.
     ret (bags, labels, molid))))"

text \<open>
  Code cell 2:
  \<^verbatim>\<open>x_train, x_test, y_train, y_test, molid_train, molid_test =
      train_test_split(bags, labels, molid, random_state=42)\<close>,
  \<^verbatim>\<open>x_train, x_test = scale_descriptors(x_train, x_test)\<close>.
\<close>

definition cell_split :: "('x, 'y, 'i, 'e, 'f, 'a, 'w) libs \<Rightarrow> 'x list \<Rightarrow> 'y list \<Rightarrow> 'i list
    \<Rightarrow> ('x list \<times> 'x list \<times> 'y list \<times> 'y list, ('x, 'y, 'i, 'f, 'w) kernel) py" where
  "cell_split L bags labels molid =
     bnd (do_train_test_split L bags labels molid 42)
       (\<lambda>(x_train, x_test, y_train, y_test, molid_train, molid_test).
     bnd (do_scale_descriptors L x_train x_test) (\<lambda>(x_train, x_test).
     ret (x_train, x_test, y_train, y_test)))"

text \<open>\<^verbatim>\<open>ndim = (x_train[0].shape[-1], 256, 128, 64)\<close>\<close>

definition make_ndim :: "('x, 'y, 'i, 'e, 'f, 'a, 'w) libs \<Rightarrow> 'x list \<Rightarrow> (nat list, 'k) py" where
  "make_ndim L x_train =
     bnd (py_index x_train 0) (\<lambda>bag0.
     bnd (py_index (shape L bag0) (- 1)) (\<lambda>d.
     ret [d, 256, 128, 64]))"

text \<open>
  Code cell 4 (cell 3 only imports names and binds literals):
  \<^verbatim>\<open>ins_net = InstanceWrapperMLPRegressor(ndim=ndim, init_cuda=init_cuda)\<close>,
  \<^verbatim>\<open>ins_net.fit(x_train, y_train, n_epoch=n_epoch, batch_size=batch_size,
      weight_decay=weight_decay, lr=lr)\<close>,
  \<^verbatim>\<open>predictions = ins_net.predict(x_test)\<close>,
  \<^verbatim>\<open>print('3D/MI/Instance-Wrapper: r2_score test = {:.2f}'.format(r2_score(y_test, predictions)))\<close>.
  The last cell trains the same class again and differs in the printed label only.
\<close>

definition train_instance_wrapper :: "('x, 'y, 'i, 'e, 'f, 'a, 'w) libs \<Rightarrow> string
    \<Rightarrow> 'x list \<Rightarrow> 'x list \<Rightarrow> 'y list \<Rightarrow> 'y list
    \<Rightarrow> (nat \<times> 'e, ('x, 'y, 'i, 'f, 'w) kernel) py" where
  "train_instance_wrapper L label x_train x_test y_train y_test =
     bnd (make_ndim L x_train) (\<lambda>ndim.
     bnd (new_InstanceWrapperMLPRegressor L ndim init_cuda) (\<lambda>ins_net.
     bnd (do_fit L ins_net x_train y_train
            \<lparr>hp_n_epoch = n_epoch, hp_batch_size = batch_size, hp_weight_decay = weight_decay,
             hp_lr = lr, hp_instance_dropout = None\<rparr>) (\<lambda>ins_net.
     bnd (do_predict L ins_net x_test) (\<lambda>predictions.
     bnd (do_r2_score L y_test predictions) (\<lambda>score.
     bnd (py_print (label @ format_2f L score)) (\<lambda>_.
     ret ins_net))))))"

definition cell_instance_wrapper :: "('x, 'y, 'i, 'e, 'f, 'a, 'w) libs
    \<Rightarrow> 'x list \<Rightarrow> 'x list \<Rightarrow> 'y list \<Rightarrow> 'y list
    \<Rightarrow> (nat \<times> 'e, ('x, 'y, 'i, 'f, 'w) kernel) py" where
  "cell_instance_wrapper L =
     train_instance_wrapper L ''3D/MI/Instance-Wrapper: r2_score test = ''"

text \<open>
  Code cell 5:
  \<^verbatim>\<open>att_net = AttentionNetRegressor(ndim=ndim, det_ndim=det_ndim, init_cuda=init_cuda)\<close>,
  \<^verbatim>\<open>att_net.fit(x_train, y_train, n_epoch=n_epoch, instance_dropout=instance_dropout,
      batch_size=batch_size, weight_decay=weight_decay, lr=lr)\<close>,
  \<^verbatim>\<open>predictions = att_net.predict(x_test)\<close>,
  \<^verbatim>\<open>print('3D/MI/Bag-AttentionNet: r2_score test = {:.2f}'.format(r2_score(y_test, predictions)))\<close>.
\<close>

definition cell_attention :: "('x, 'y, 'i, 'e, 'f, 'a, 'w) libs
    \<Rightarrow> 'x list \<Rightarrow> 'x list \<Rightarrow> 'y list \<Rightarrow> 'y list
    \<Rightarrow> (nat \<times> 'e, ('x, 'y, 'i, 'f, 'w) kernel) py" where
  "cell_attention L x_train x_test y_train y_test =
     bnd (make_ndim L x_train) (\<lambda>ndim.
     bnd (new_AttentionNetRegressor L ndim det_ndim init_cuda) (\<lambda>att_net.
     bnd (do_fit L att_net x_train y_train
            \<lparr>hp_n_epoch = n_epoch, hp_batch_size = batch_size, hp_weight_decay = weight_decay,
             hp_lr = lr, hp_instance_dropout = Some instance_dropout\<rparr>) (\<lambda>att_net.
     bnd (do_predict L att_net x_test) (\<lambda>predictions.
     bnd (do_r2_score L y_test predictions) (\<lambda>score.
     bnd (py_print (''3D/MI/Bag-AttentionNet: r2_score test = '' @ format_2f L score)) (\<lambda>_.
     ret att_net))))))"

text \<open>
  Code cell 6:
  \<^verbatim>\<open>instance_weights = att_net.get_instance_weights(x_test)\<close>, \<^verbatim>\<open>n = 2\<close>,
  \<^verbatim>\<open>sns.set(rc={'figure.figsize':(25, 8)})\<close>,
  \<^verbatim>\<open>x = list(range(len(instance_weights[n])))\<close>, \<^verbatim>\<open>y = instance_weights[n]\<close>,
  \<^verbatim>\<open>plot = sns.barplot(x=x, y=y)\<close>,
  \<^verbatim>\<open>plot.set(xlabel='Conformation index', ylabel='Attention weight')\<close>.
\<close>

definition cell_weights :: "('x, 'y, 'i, 'e, 'f, 'a, 'w) libs \<Rightarrow> nat \<times> 'e \<Rightarrow> 'x list
    \<Rightarrow> (unit, ('x, 'y, 'i, 'f, 'w) kernel) py" where
  "cell_weights L att_net x_test =
     bnd (do_get_instance_weights L att_net x_test) (\<lambda>instance_weights.
     bnd (do_sns_set L (25, 8)) (\<lambda>_.
     bnd (py_index instance_weights 2) (\<lambda>w2.
     bnd (py_index instance_weights 2) (\<lambda>y.
     bnd (do_sns_barplot L [0 ..< length w2] y) (\<lambda>plot.
     do_plot_set L plot ''Conformation index'' ''Attention weight'')))))"

text \<open>
  Code cell 7:
  \<^verbatim>\<open>bags, labels, molid = calc_3d_pmapper(dataset_file, nconfs=1, stereo=False,
      path=descriptors_folder, ncpu=ncpu)\<close>, the same \<^verbatim>\<open>print\<close> as in cell 1, the two
  statements of cell 2, and the training of cell 4 with the label \<^verbatim>\<open>3D/SI/Net\<close>.
\<close>

definition cell_single :: "('x, 'y, 'i, 'e, 'f, 'a, 'w) libs
    \<Rightarrow> (unit, ('x, 'y, 'i, 'f, 'w) kernel) py" where
  "cell_single L =
     bnd (do_calc_3d_pmapper L dataset_file 1 False descriptors_folder ncpu)
       (\<lambda>(bags, labels, molid).
     bnd (report L bags) (\<lambda>_.
     bnd (cell_split L bags labels molid) (\<lambda>(x_train, x_test, y_train, y_test).
     bnd (train_instance_wrapper L ''3D/SI/Net: r2_score test = ''
            x_train x_test y_train y_test) (\<lambda>ins_net.
     ret ()))))"

text \<open>The notebook: the code cells in order (the two last code cells are empty).\<close>

definition notebook :: "('x, 'y, 'i, 'e, 'f, 'a, 'w) libs
    \<Rightarrow> (unit, ('x, 'y, 'i, 'f, 'w) kernel) py" where
  "notebook L =
     bnd (cell_descriptors L) (\<lambda>(bags, labels, molid).
     bnd (cell_split L bags labels molid) (\<lambda>(x_train, x_test, y_train, y_test).
     bnd (cell_instance_wrapper L x_train x_test y_train y_test) (\<lambda>ins_net.
     bnd (cell_attention L x_train x_test y_train y_test) (\<lambda>att_net.
     bnd (cell_weights L att_net x_test) (\<lambda>_.
     cell_single L)))))"

definition fresh_kernel :: "'w world \<Rightarrow> ('x, 'y, 'i, 'f, 'w) kernel" where
  "fresh_kernel w = \<lparr>trace = [], world = w, next_oid = 0\<rparr>"

definition run :: "('x, 'y, 'i, 'e, 'f, 'a, 'w) libs \<Rightarrow> 'w world
    \<Rightarrow> (py_error + unit) \<times> ('x, 'y, 'i, 'f, 'w) kernel" where
  "run L w = notebook L (fresh_kernel w)"

definition calls :: "('x, 'y, 'i, 'e, 'f, 'a, 'w) libs \<Rightarrow> 'w world \<Rightarrow> ('x, 'y, 'i, 'f) event list" where
  "calls L w = trace (snd (run L w))"

definition completes :: "('x, 'y, 'i, 'e, 'f, 'a, 'w) libs \<Rightarrow> 'w world \<Rightarrow> bool" where
  "completes L w = (fst (run L w) = Inr ())"

section \<open>Reading the log\<close>

datatype step =
  KMkdir | KCalc | KReport | KSplit | KScale | KNew | KFit | KPredict | KR2 | KMetric
  | KWeights | KPlot

text \<open>
  The notebook prints two sorts of lines: the descriptor report (\<^verbatim>\<open>There are ...\<close>) and the
  evaluation metric lines, which all start with \<^verbatim>\<open>3D/\<close>.
\<close>

fun kind :: "('x, 'y, 'i, 'f) call \<Rightarrow> step" where
  "kind (Mkdir p) = KMkdir"
| "kind (Calc3dPmapper f nc st p cpu) = KCalc"
| "kind (Print s) = (if take 3 s = ''3D/'' then KMetric else KReport)"
| "kind (TrainTestSplit b l m rs) = KSplit"
| "kind (ScaleDescriptors a b) = KScale"
| "kind (NewInstanceWrapperMLPRegressor nd cuda) = KNew"
| "kind (NewAttentionNetRegressor nd dnd cuda) = KNew"
| "kind (Fit oid x y h) = KFit"
| "kind (Predict oid x) = KPredict"
| "kind (GetInstanceWeights oid x) = KWeights"
| "kind (R2Score y p) = KR2"
| "kind (SnsSet fs) = KPlot"
| "kind (SnsBarplot x y) = KPlot"
| "kind (PlotSet xl yl) = KPlot"

definition kinds :: "('x, 'y, 'i, 'f) event list \<Rightarrow> step list" where
  "kinds t = map (\<lambda>e. kind (fst e)) t"

text \<open>The steps of a run of the whole notebook, in the order of the cells.\<close>

definition notebook_order :: "step list" where
  "notebook_order =
     [KMkdir, KCalc, KReport, KSplit, KScale,
      KNew, KFit, KPredict, KR2, KMetric,
      KNew, KFit, KPredict, KR2, KMetric,
      KWeights, KPlot, KPlot, KPlot,
      KCalc, KReport, KSplit, KScale,
      KNew, KFit, KPredict, KR2, KMetric]"




text \<open>The most recent call of one of the given kinds, with its outcome.\<close>

definition latest :: "step list \<Rightarrow> ('x, 'y, 'i, 'f) event list \<Rightarrow> ('x, 'y, 'i, 'f) event option" where
  "latest K t = List.find (\<lambda>e. kind (fst e) \<in> set K) (rev t)"

text \<open>
  The data the names \<^verbatim>\<open>bags, labels, molid\<close>, then \<^verbatim>\<open>x_train, ..., molid_test\<close>, then
  \<^verbatim>\<open>x_train, x_test\<close> are bound to after a log \<open>t\<close>: each is what the most recent
  data-producing call returned, provided that call is the one that binds the name.
\<close>

definition raw_data :: "('x, 'y, 'i, 'f) event list \<Rightarrow> ('x list \<times> 'y list \<times> 'i list) option" where
  "raw_data t =
     (case latest [KCalc, KSplit, KScale] t of
        Some (Calc3dPmapper f nc st p cpu, Returned (RDescriptors b l m)) \<Rightarrow> Some (b, l, m)
      | _ \<Rightarrow> None)"

definition split_data :: "('x, 'y, 'i, 'f) event list
    \<Rightarrow> ('x list \<times> 'x list \<times> 'y list \<times> 'y list) option" where
  "split_data t =
     (case latest [KCalc, KSplit] t of
        Some (TrainTestSplit b l m rs, Returned (RSplit xtr xte ytr yte mtr mte))
          \<Rightarrow> Some (xtr, xte, ytr, yte)
      | _ \<Rightarrow> None)"

definition scaled_data :: "('x, 'y, 'i, 'f) event list \<Rightarrow> ('x list \<times> 'x list) option" where
  "scaled_data t =
     (case latest [KCalc, KSplit, KScale] t of
        Some (ScaleDescriptors a b, Returned (RScaled x_train x_test)) \<Rightarrow> Some (x_train, x_test)
      | _ \<Rightarrow> None)"



fun created_by :: "('x, 'y, 'i, 'f) event \<Rightarrow> (string \<times> nat) option" where
  "created_by (NewInstanceWrapperMLPRegressor nd cuda, Returned (RObject oid)) =
     Some (''InstanceWrapperMLPRegressor'', oid)"
| "created_by (NewAttentionNetRegressor nd dnd cuda, Returned (RObject oid)) =
     Some (''AttentionNetRegressor'', oid)"
| "created_by e = None"

definition created :: "('x, 'y, 'i, 'f) event list \<Rightarrow> (string \<times> nat) list" where
  "created t = List.map_filter created_by t"

definition count_where :: "('v \<Rightarrow> bool) \<Rightarrow> 'v list \<Rightarrow> nat" where
  "count_where P t = length (filter P t)"










section \<open>The source text of the code cells\<close>

text \<open>
  The lines of the nine code cells as they stand in \<^verbatim>\<open>example.ipynb\<close> (the two last cells
  are empty). A single quote is written \<open>sq\<close>; the first letter of the comment that opens
  the second cell is a Cyrillic letter, two bytes in UTF-8.
\<close>

abbreviation (input) sq :: char where "sq \<equiv> CHR 0x27"

definition code_cells :: "string list list" where
  "code_cells =
     [[''import os'',
       ''from miqsar.utils import calc_3d_pmapper'',
       [],
       ''#Choose dataset to be modeled and create a folder where the descriptors will be stored'',
       [],
       ''nconfs = 100'',
       ''ncpu = 10'',
       [],
       ''dataset_file = '' @ [sq] @ ''datasets/CHEMBL1075104.smi'' @ [sq],
       ''descriptors_folder = os.path.join('' @ [sq] @ ''descriptors'' @ [sq] @ '')'',
       ''os.mkdir(descriptors_folder)'',
       [],
       ''bags, labels, molid = calc_3d_pmapper(dataset_file, nconfs=nconfs, stereo=False, path=descriptors_folder, ncpu=ncpu)'',
       [],
       ''print(f'' @ [sq] @ ''There are {len(bags)} molecules encoded with {bags[0].shape[1]} pmapper descriptors'' @ [sq] @ '')''],

      [''#'' @ [CHR 0xD0] @ [CHR 0xA1] @ ''reate a training and test set and scale the descriptors'',
       [],
       ''from sklearn.model_selection import train_test_split'',
       ''from miqsar.utils import  scale_descriptors'',
       [],
       ''x_train, x_test, y_train, y_test, molid_train, molid_test = train_test_split(bags, labels, molid, random_state=42)'',
       ''x_train, x_test = scale_descriptors(x_train, x_test)''],

      [''from miqsar.estimators.wrappers import BagWrapperMLPRegressor, InstanceWrapperMLPRegressor'',
       ''from miqsar.estimators.attention_nets import AttentionNetRegressor'',
       ''from miqsar.estimators.mi_nets import BagNetRegressor, InstanceNetRegressor'',
       ''from sklearn.metrics import r2_score'',
       [],
       ''n_epoch = 500 # number of learning epochs'',
       ''batch_size = 128 # training batch size'',
       ''lr = 0.001 # learning rate'',
       ''weight_decay = 0.01 # L2 regularization'',
       ''seed = 42'',
       ''init_cuda = False # True if GPU is available for training neural network''],

      [''ndim = (x_train[0].shape[-1], 256, 128, 64) # the number of layers and hidden neurons in the neural network'',
       [],
       ''ins_net = InstanceWrapperMLPRegressor(ndim=ndim, init_cuda=init_cuda)'',
       ''ins_net.fit(x_train, y_train, n_epoch=n_epoch, batch_size=batch_size, weight_decay=weight_decay, lr=lr)'',
       [],
       ''predictions = ins_net.predict(x_test)'',
       [],
       ''print('' @ [sq] @ ''3D/MI/Instance-Wrapper: r2_score test = {:.2f}'' @ [sq] @ ''.format(r2_score(y_test, predictions)))''],

      [''ndim = (x_train[0].shape[-1], 256, 128, 64) # the number of layers and hidden neurons in the main neural network'',
       ''det_ndim = (64,) # the number of layers and hidden neurons in the attention neural network'',
       ''instance_dropout = 0.95 # regularization of attention weights'',
       [],
       ''att_net = AttentionNetRegressor(ndim=ndim, det_ndim=det_ndim, init_cuda=init_cuda)'',
       ''att_net.fit(x_train, y_train, n_epoch=n_epoch, instance_dropout=instance_dropout,'',
       ''            batch_size=batch_size, weight_decay=weight_decay, lr=lr)'',
       [],
       ''predictions = att_net.predict(x_test)'',
       [],
       ''print('' @ [sq] @ ''3D/MI/Bag-AttentionNet: r2_score test = {:.2f}'' @ [sq] @ ''.format(r2_score(y_test, predictions)))''],

      [''import seaborn as sns # one must also install seaborne'',
       [],
       ''instance_weights = att_net.get_instance_weights(x_test)'',
       [],
       ''n = 2 # index of molecule'',
       [],
       ''sns.set(rc={'' @ [sq] @ ''figure.figsize'' @ [sq] @ '':(25, 8)})'',
       [],
       ''x = list(range(len(instance_weights[n])))'',
       ''y = instance_weights[n]'',
       [],
       ''plot = sns.barplot(x=x, y=y)'',
       ''plot.set(xlabel='' @ [sq] @ ''Conformation index'' @ [sq] @ '', ylabel='' @ [sq] @ ''Attention weight'' @ [sq] @ '')''],

      [''# calculate descriptors for single lowest-energy conformation'',
       ''bags, labels, molid = calc_3d_pmapper(dataset_file, nconfs=1, stereo=False, path=descriptors_folder, ncpu=ncpu)'',
       ''print(f'' @ [sq] @ ''There are {len(bags)} molecules encoded with {bags[0].shape[1]} pmapper descriptors'' @ [sq] @ '')'',
       [],
       ''# training and test set split'',
       ''x_train, x_test, y_train, y_test, molid_train, molid_test = train_test_split(bags, labels, molid, random_state=42)'',
       ''x_train, x_test = scale_descriptors(x_train, x_test)'',
       [],
       ''# train Single-Instance model'',
       ''ndim = (x_train[0].shape[-1], 256, 128, 64) # Number of layers and hidden neurons in the neural network'',
       [],
       ''ins_net = InstanceWrapperMLPRegressor(ndim=ndim, init_cuda=init_cuda)'',
       ''ins_net.fit(x_train, y_train, n_epoch=n_epoch, batch_size=batch_size, weight_decay=weight_decay, lr=lr)'',
       [],
       ''predictions = ins_net.predict(x_test)'',
       [],
       ''print('' @ [sq] @ ''3D/SI/Net: r2_score test = {:.2f}'' @ [sq] @ ''.format(r2_score(y_test, predictions)))''],

      [],

      []]"

text \<open>
  A small lexer, enough for these cells: it drops comments and the text of string literals,
  keeps the expressions between the braces of an f-string, and splits what is left into
  names, keywords and numbers. Escapes inside strings are not handled (the cells have none).
\<close>

datatype lex_state = Code | Str char | FStr char | FExpr char

fun code_part :: "lex_state \<Rightarrow> char \<Rightarrow> string \<Rightarrow> string" where
  "code_part st prev [] = []"
| "code_part Code prev (c # cs) =
     (if c = CHR ''#'' then []
      else if c = sq \<or> c = CHR 0x22
        then c # code_part (if prev = CHR ''f'' then FStr c else Str c) c cs
      else c # code_part Code c cs)"
| "code_part (Str d) prev (c # cs) =
     (if c = d then c # code_part Code c cs else code_part (Str d) c cs)"
| "code_part (FStr d) prev (c # cs) =
     (if c = d then c # code_part Code c cs
      else if c = CHR ''{'' then c # code_part (FExpr d) c cs
      else code_part (FStr d) c cs)"
| "code_part (FExpr d) prev (c # cs) =
     (if c = CHR ''}'' then c # code_part (FStr d) c cs else c # code_part (FExpr d) c cs)"

definition ident_char :: "char \<Rightarrow> bool" where
  "ident_char c =
     (let n = (of_char c :: nat)
      in (48 \<le> n \<and> n \<le> 57) \<or> (65 \<le> n \<and> n \<le> 90) \<or> n = 95 \<or> (97 \<le> n \<and> n \<le> 122))"

fun py_words :: "string \<Rightarrow> string \<Rightarrow> string list" where
  "py_words acc [] = (if acc = [] then [] else [acc])"
| "py_words acc (c # cs) =
     (if ident_char c then py_words (acc @ [c]) cs
      else (if acc = [] then [] else [acc]) @ py_words [] cs)"

definition words_of_line :: "string \<Rightarrow> string list" where
  "words_of_line line = py_words [] (code_part Code (CHR '' '') line)"

definition notebook_words :: "string list" where
  "notebook_words = concat (map words_of_line (concat code_cells))"

text \<open>
  The names bound by the import statements, each with the module path it comes from:
  \<^verbatim>\<open>from a.b import x, y\<close> binds \<^verbatim>\<open>x\<close> and \<^verbatim>\<open>y\<close>; \<^verbatim>\<open>import a as z\<close> binds \<^verbatim>\<open>z\<close>;
  \<^verbatim>\<open>import a\<close> binds \<^verbatim>\<open>a\<close>.
\<close>

fun imports_of :: "string list \<Rightarrow> (string \<times> string list) list" where
  "imports_of [] = []"
| "imports_of (w # ws) =
     (if w = ''from''
        then map (\<lambda>name. (name, takeWhile (\<lambda>v. v \<noteq> ''import'') ws))
               (drop 1 (dropWhile (\<lambda>v. v \<noteq> ''import'') ws))
      else if w = ''import''
        then (case drop 1 (dropWhile (\<lambda>v. v \<noteq> ''as'') ws) of
                [] \<Rightarrow> [(hd ws, takeWhile (\<lambda>v. v \<noteq> ''as'') ws)]
              | alias # _ \<Rightarrow> [(alias, takeWhile (\<lambda>v. v \<noteq> ''as'') ws)])
      else [])"

definition symbol_table :: "(string \<times> string list) list" where
  "symbol_table = concat (map (\<lambda>line. imports_of (words_of_line line)) (concat code_cells))"


text \<open>The keywords that define functions or classes, and those of control flow.\<close>

definition defining_keywords :: "string list" where
  "defining_keywords = [''def'', ''class'', ''lambda'']"

definition control_keywords :: "string list" where
  "control_keywords =
     [''for'', ''while'', ''if'', ''elif'', ''else'', ''try'', ''except'', ''finally'',
      ''with'', ''match'', ''case'', ''async'', ''await'', ''return'', ''yield'',
      ''break'', ''continue'', ''raise'', ''assert'']"

definition package_of :: "string \<Rightarrow> string option" where
  "package_of name = map_option hd (map_of symbol_table name)"

text \<open>
  The imported name a logged call goes through: a function or class name, the class of the
  object for a method call, \<^verbatim>\<open>sns\<close> for the plot (the axes object comes from
  \<^verbatim>\<open>sns.barplot\<close>); \<^verbatim>\<open>print\<close> is a builtin.
\<close>

fun callee :: "(string \<times> nat) list \<Rightarrow> ('x, 'y, 'i, 'f) call \<Rightarrow> string option" where
  "callee objs (Mkdir p) = Some ''os''"
| "callee objs (Calc3dPmapper f nc st p cpu) = Some ''calc_3d_pmapper''"
| "callee objs (Print s) = None"
| "callee objs (TrainTestSplit b l m rs) = Some ''train_test_split''"
| "callee objs (ScaleDescriptors a b) = Some ''scale_descriptors''"
| "callee objs (NewInstanceWrapperMLPRegressor nd cuda) = Some ''InstanceWrapperMLPRegressor''"
| "callee objs (NewAttentionNetRegressor nd dnd cuda) = Some ''AttentionNetRegressor''"
| "callee objs (Fit oid x y h) = map_of (map (\<lambda>(cls, n). (n, cls)) objs) oid"
| "callee objs (Predict oid x) = map_of (map (\<lambda>(cls, n). (n, cls)) objs) oid"
| "callee objs (GetInstanceWeights oid x) = map_of (map (\<lambda>(cls, n). (n, cls)) objs) oid"
| "callee objs (R2Score y p) = Some ''r2_score''"
| "callee objs (SnsSet fs) = Some ''sns''"
| "callee objs (SnsBarplot x y) = Some ''sns''"
| "callee objs (PlotSet xl yl) = Some ''sns''"

section \<open>The shape of a log\<close>

text \<open>
  A script lists the calls of a piece of the notebook together with the values they return
  when nothing raises. A log is cut from a script: it follows the script call by call, and
  ends at the end of the script, at a call that raises, or before a call when a Python
  expression of the notebook itself raises.
\<close>

type_synonym ('x, 'y, 'i, 'f) script = "(('x, 'y, 'i, 'f) call \<times> ('x, 'y, 'i, 'f) rv) list"

definition returned :: "('x, 'y, 'i, 'f) script \<Rightarrow> ('x, 'y, 'i, 'f) event list" where
  "returned s = map (\<lambda>(c, r). (c, Returned r)) s"

inductive cut :: "('x, 'y, 'i, 'f) script \<Rightarrow> ('x, 'y, 'i, 'f) event list \<Rightarrow> bool" where
  stop: "cut s []"
| raised: "cut ((c, r) # s) [(c, Raised e)]"
| step: "cut s t \<Longrightarrow> cut ((c, r) # s) ((c, Returned r) # t)"

definition report_line :: "('x, 'y, 'i, 'e, 'f, 'a, 'w) libs \<Rightarrow> 'x list \<Rightarrow> string" where
  "report_line L bags =
     ''There are '' @ show_nat (length bags) @ '' molecules encoded with ''
       @ show_nat (shape L (bags ! 0) ! 1) @ '' pmapper descriptors''"

definition s_mkdir :: "('x, 'y, 'i, 'f) script" where
  "s_mkdir = [(Mkdir descriptors_folder, RNone)]"

definition s_calc :: "('x, 'y, 'i, 'e, 'f, 'a, 'w) libs \<Rightarrow> nat \<Rightarrow> 'x list \<Rightarrow> 'y list \<Rightarrow> 'i list
    \<Rightarrow> ('x, 'y, 'i, 'f) script" where
  "s_calc L nc b l m =
     [(Calc3dPmapper dataset_file nc False descriptors_folder ncpu, RDescriptors b l m),
      (Print (report_line L b), RNone)]"

definition s_split :: "'x list \<Rightarrow> 'y list \<Rightarrow> 'i list
    \<Rightarrow> 'x list \<Rightarrow> 'x list \<Rightarrow> 'y list \<Rightarrow> 'y list \<Rightarrow> 'i list \<Rightarrow> 'i list \<Rightarrow> 'x list \<Rightarrow> 'x list
    \<Rightarrow> ('x, 'y, 'i, 'f) script" where
  "s_split b l m xtr xte ytr yte mtr mte x_train x_test =
     [(TrainTestSplit b l m 42, RSplit xtr xte ytr yte mtr mte),
      (ScaleDescriptors xtr xte, RScaled x_train x_test)]"

definition ndim_of :: "('x, 'y, 'i, 'e, 'f, 'a, 'w) libs \<Rightarrow> 'x list \<Rightarrow> nat list" where
  "ndim_of L x_train = [last (shape L (x_train ! 0)), 256, 128, 64]"

definition s_train :: "('x, 'y, 'i, 'e, 'f, 'a, 'w) libs \<Rightarrow> string \<Rightarrow> nat \<Rightarrow> 'x list \<Rightarrow> 'x list
    \<Rightarrow> 'y list \<Rightarrow> 'y list \<Rightarrow> 'y list \<Rightarrow> 'f \<Rightarrow> ('x, 'y, 'i, 'f) script" where
  "s_train L label oid x_train x_test y_train y_test predictions score =
     [(NewInstanceWrapperMLPRegressor (ndim_of L x_train) init_cuda, RObject oid),
      (Fit oid x_train y_train
         \<lparr>hp_n_epoch = n_epoch, hp_batch_size = batch_size, hp_weight_decay = weight_decay,
          hp_lr = lr, hp_instance_dropout = None\<rparr>, RNone),
      (Predict oid x_test, RPredictions predictions),
      (R2Score y_test predictions, RScore score),
      (Print (label @ format_2f L score), RNone)]"

definition s_attention :: "('x, 'y, 'i, 'e, 'f, 'a, 'w) libs \<Rightarrow> nat \<Rightarrow> 'x list \<Rightarrow> 'x list
    \<Rightarrow> 'y list \<Rightarrow> 'y list \<Rightarrow> 'y list \<Rightarrow> 'f \<Rightarrow> ('x, 'y, 'i, 'f) script" where
  "s_attention L oid x_train x_test y_train y_test predictions score =
     [(NewAttentionNetRegressor (ndim_of L x_train) det_ndim init_cuda, RObject oid),
      (Fit oid x_train y_train
         \<lparr>hp_n_epoch = n_epoch, hp_batch_size = batch_size, hp_weight_decay = weight_decay,
          hp_lr = lr, hp_instance_dropout = Some instance_dropout\<rparr>, RNone),
      (Predict oid x_test, RPredictions predictions),
      (R2Score y_test predictions, RScore score),
      (Print (''3D/MI/Bag-AttentionNet: r2_score test = '' @ format_2f L score), RNone)]"

definition s_weights :: "nat \<Rightarrow> 'x list \<Rightarrow> 'f list list \<Rightarrow> ('x, 'y, 'i, 'f) script" where
  "s_weights oid x_test instance_weights =
     [(GetInstanceWeights oid x_test, RWeights instance_weights),
      (SnsSet (25, 8), RNone),
      (SnsBarplot [0 ..< length (instance_weights ! 2)] (instance_weights ! 2), RAxes),
      (PlotSet ''Conformation index'' ''Attention weight'', RNone)]"

text \<open>
  The script of the whole notebook, for the values returned by the libraries: the two
  pipelines (\<open>b \<dots> x_test\<close> with 100 conformations, \<open>b' \<dots> x_test'\<close> with one), the
  predictions and scores of the three estimators, and the attention weights.
\<close>

definition notebook_script :: "('x, 'y, 'i, 'e, 'f, 'a, 'w) libs
    \<Rightarrow> 'x list \<Rightarrow> 'y list \<Rightarrow> 'i list
    \<Rightarrow> 'x list \<Rightarrow> 'x list \<Rightarrow> 'y list \<Rightarrow> 'y list \<Rightarrow> 'i list \<Rightarrow> 'i list \<Rightarrow> 'x list \<Rightarrow> 'x list
    \<Rightarrow> 'y list \<Rightarrow> 'f \<Rightarrow> 'y list \<Rightarrow> 'f \<Rightarrow> 'f list list
    \<Rightarrow> 'x list \<Rightarrow> 'y list \<Rightarrow> 'i list
    \<Rightarrow> 'x list \<Rightarrow> 'x list \<Rightarrow> 'y list \<Rightarrow> 'y list \<Rightarrow> 'i list \<Rightarrow> 'i list \<Rightarrow> 'x list \<Rightarrow> 'x list
    \<Rightarrow> 'y list \<Rightarrow> 'f \<Rightarrow> ('x, 'y, 'i, 'f) script" where
  "notebook_script L b l m xtr xte ytr yte mtr mte x_train x_test p1 r1 p2 r2 iw
       b' l' m' xtr' xte' ytr' yte' mtr' mte' x_train' x_test' p3 r3 =
     s_mkdir
     @ s_calc L nconfs b l m
     @ s_split b l m xtr xte ytr yte mtr mte x_train x_test
     @ s_train L ''3D/MI/Instance-Wrapper: r2_score test = '' 0 x_train x_test ytr yte p1 r1
     @ s_attention L 1 x_train x_test ytr yte p2 r2
     @ s_weights 1 x_test iw
     @ s_calc L 1 b' l' m'
     @ s_split b' l' m' xtr' xte' ytr' yte' mtr' mte' x_train' x_test'
     @ s_train L ''3D/SI/Net: r2_score test = '' 2 x_train' x_test' ytr' yte' p3 r3"

text \<open>
  A property of every call, given the log up to that call, checked along a script.
\<close>

fun all_steps :: "(('x, 'y, 'i, 'f) event list \<Rightarrow> ('x, 'y, 'i, 'f) call \<Rightarrow> bool)
    \<Rightarrow> ('x, 'y, 'i, 'f) event list \<Rightarrow> ('x, 'y, 'i, 'f) script \<Rightarrow> bool" where
  "all_steps Q h [] = True"
| "all_steps Q h ((c, r) # s) = (Q h c \<and> all_steps Q (h @ [(c, Returned r)]) s)"

section \<open>A library to run the notebook on\<close>

text \<open>
  Stand-ins for the libraries, on natural numbers: four molecules, the first three of which
  go to the training set; nothing raises and nothing touches the outside world.
\<close>

definition demo_libs :: "(nat, nat, nat, nat, nat, unit, unit) libs" where
  "demo_libs =
     \<lparr>calc_3d_pmapper = (\<lambda>file nc st path cpu w. (Inr ([1, 2, 3, 4], [5, 6, 7, 8], [9, 10, 11, 12]), w)),
      train_test_split = (\<lambda>b l m rs w.
         (Inr (take 3 b, drop 3 b, take 3 l, drop 3 l, take 3 m, drop 3 m), w)),
      scale_descriptors = (\<lambda>a b w. (Inr (map Suc a, map Suc b), w)),
      InstanceWrapperMLPRegressor = (\<lambda>nd cuda w. (Inr 0, w)),
      AttentionNetRegressor = (\<lambda>nd dnd cuda w. (Inr 0, w)),
      fit = (\<lambda>e x y h w. (Inr (Suc e), w)),
      predict = (\<lambda>e x w. (Inr (map (\<lambda>b. b + e) x), w)),
      get_instance_weights = (\<lambda>e x w. (Inr [[1], [1, 2], [1, 2, 3]], w)),
      r2_score = (\<lambda>y p w. (Inr 1, w)),
      sns_set = (\<lambda>fs w. (Inr (), w)),
      sns_barplot = (\<lambda>x y w. (Inr (), w)),
      plot_set = (\<lambda>pl xl yl w. (Inr (), w)),
      shape = (\<lambda>b. [2, 5]),
      format_2f = (\<lambda>f. ''1.00'')\<rparr>"

definition demo_world :: "unit world" where
  "demo_world = \<lparr>paths = {}, stdout = [], ext = ()\<rparr>"


section \<open>Proofs\<close>

subsection \<open>Logs cut from scripts\<close>

lemma returned_simps [simp]:
  "returned [] = []"
  "returned ((c, r) # s) = (c, Returned r) # returned s"
  "returned (s @ s') = returned s @ returned s'"
  by (simp_all add: returned_def)

lemma length_returned [simp]: "length (returned s) = length s"
  by (simp add: returned_def)

lemma cut_returned: "cut s (returned s)"
  by (induction s) (auto intro: cut.intros)

lemma cut_append_fail: "cut s t \<Longrightarrow> cut (s @ s') t"
  by (induction rule: cut.induct) (auto intro: cut.intros)

lemma cut_append_ok: "cut s' t \<Longrightarrow> cut (s @ s') (returned s @ t)"
  by (induction s) (auto intro: cut.intros)

lemma cut_append_fail2: "cut (s1 @ s2) t \<Longrightarrow> cut (s1 @ s2 @ s3) t"
  using cut_append_fail [of "s1 @ s2" t s3] by simp

lemma cut_length: "cut s t \<Longrightarrow> length t \<le> length s"
  by (induction rule: cut.induct) auto

lemma cut_nth:
  "cut s t \<Longrightarrow> k < length t \<Longrightarrow>
     fst (t ! k) = fst (s ! k) \<and> take k t = returned (take k s)"
proof (induction arbitrary: k rule: cut.induct)
  case (stop s)
  then show ?case by simp
next
  case (raised c r s e)
  then show ?case by simp
next
  case (step s t c r)
  then show ?case by (cases k) auto
qed

subsection \<open>One step at a time\<close>

lemma bndE:
  assumes "bnd m f k = (r, k'')"
  obtains (fail) e where "m k = (Inl e, k'')" "r = Inl e"
        | (ok) v k' where "m k = (Inr v, k')" "f v k' = (r, k'')"
  using assms by (auto simp: bnd_def split: prod.splits sum.splits)

lemma retE:
  assumes "ret v k = (r, k')"
  obtains "r = Inr v" "k' = k"
  using assms by (auto simp: ret_def)

lemma libE:
  assumes "lib c f tag k = (r, k')"
  obtains (raise) e where "r = Inl e" "trace k' = trace k @ [(c, Raised e)]"
        | (return) v where "r = Inr v" "trace k' = trace k @ [(c, Returned (tag v))]"
            "next_oid k' = next_oid k"
  using assms by (auto simp: lib_def split: prod.splits sum.splits)

lemma constructE:
  assumes "construct c f k = (r, k')"
  obtains (raise) e where "r = Inl e" "trace k' = trace k @ [(c, Raised e)]"
        | (return) v where "r = Inr (next_oid k, v)"
            "trace k' = trace k @ [(c, Returned (RObject (next_oid k)))]"
            "next_oid k' = Suc (next_oid k)"
  using assms by (auto simp: construct_def split: prod.splits sum.splits)

lemma py_printE:
  assumes "py_print s k = (r, k')"
  obtains "r = Inr ()" "trace k' = trace k @ [(Print s, Returned RNone)]"
    "next_oid k' = next_oid k"
  using assms by (auto simp: py_print_def)

lemma py_index_0E:
  assumes "py_index xs 0 k = (r, k')"
  obtains (raise) "r = Inl IndexError" "k' = k"
        | (return) "r = Inr (xs ! 0)" "k' = k"
  using assms by (auto simp: py_index_def Let_def ret_def raise_def split: if_splits)

lemma py_index_1E:
  assumes "py_index xs 1 k = (r, k')"
  obtains (raise) "r = Inl IndexError" "k' = k"
        | (return) "r = Inr (xs ! 1)" "k' = k"
  using assms by (auto simp: py_index_def Let_def ret_def raise_def split: if_splits)

lemma py_index_2E:
  assumes "py_index xs 2 k = (r, k')"
  obtains (raise) "r = Inl IndexError" "k' = k"
        | (return) "r = Inr (xs ! 2)" "k' = k"
  using assms by (auto simp: py_index_def Let_def ret_def raise_def split: if_splits)

lemma py_index_lastE:
  assumes "py_index xs (- 1) k = (r, k')"
  obtains (raise) "r = Inl IndexError" "k' = k"
        | (return) "r = Inr (last xs)" "k' = k"
proof (cases xs rule: rev_cases)
  case Nil
  with assms have "r = Inl IndexError" "k' = k"
    by (auto simp: py_index_def Let_def ret_def raise_def)
  then show ?thesis by (rule raise)
next
  case (snoc ys y)
  with assms have "r = Inr (last xs)" "k' = k"
    by (auto simp: py_index_def Let_def ret_def raise_def nth_append)
  then show ?thesis by (rule return)
qed

lemma case_prod_stepE:
  assumes "(case v of (a, b) \<Rightarrow> f a b) k = q"
  obtains a b where "v = (a, b)" "f a b k = q"
  using assms by (cases v) auto

lemma make_ndimE:
  assumes "make_ndim L x k = (r, k')"
  obtains (raise) "r = Inl IndexError" "k' = k"
    | (return) "r = Inr (ndim_of L x)" "k' = k"
  using assms unfolding make_ndim_def ndim_of_def
  by (elim bndE py_index_0E py_index_lastE retE) auto

lemma reportE:
  assumes "report L bags k = (r, k')"
  obtains (raise) "r = Inl IndexError" "k' = k"
    | (return) "r = Inr ()" "trace k' = trace k @ [(Print (report_line L bags), Returned RNone)]"
       "next_oid k' = next_oid k"
  using assms unfolding report_def report_line_def
  by (elim bndE py_index_0E py_index_1E py_printE) auto

subsection \<open>The cells\<close>

lemma cell_descriptorsE:
  assumes "cell_descriptors L k = (r, k')"
  obtains b l m seg where "trace k' = trace k @ seg" "seg \<noteq> []"
    "cut (s_mkdir @ s_calc L nconfs b l m) seg"
    "\<And>v. r = Inr v \<Longrightarrow> v = (b, l, m) \<and> next_oid k' = next_oid k
           \<and> seg = returned s_mkdir @ returned (s_calc L nconfs b l m)"
proof -
  have "\<exists>b l m seg. trace k' = trace k @ seg \<and> seg \<noteq> []
           \<and> cut (s_mkdir @ s_calc L nconfs b l m) seg
           \<and> (\<forall>v. r = Inr v \<longrightarrow> v = (b, l, m) \<and> next_oid k' = next_oid k
                 \<and> seg = returned s_mkdir @ returned (s_calc L nconfs b l m))"
    using assms unfolding cell_descriptors_def do_mkdir_def do_calc_3d_pmapper_def s_calc_def
      s_mkdir_def
    by (elim case_prod_stepE bndE libE reportE retE) (auto intro!: exI cut.intros)
  then show ?thesis using that by blast
qed

lemma do_calcE:
  assumes "do_calc_3d_pmapper L file nc st path cpu k = (r, k')"
  obtains (raise) e where "r = Inl e"
      "trace k' = trace k @ [(Calc3dPmapper file nc st path cpu, Raised e)]"
  | (return) b l m where "r = Inr (b, l, m)" "next_oid k' = next_oid k"
      "trace k' = trace k @ [(Calc3dPmapper file nc st path cpu, Returned (RDescriptors b l m))]"
  using assms unfolding do_calc_3d_pmapper_def by (elim libE) (auto split: prod.splits)

lemma cell_splitE:
  assumes "cell_split L b l m k = (r, k')"
  obtains xtr xte ytr yte mtr mte x_train x_test seg where "trace k' = trace k @ seg"
    "cut (s_split b l m xtr xte ytr yte mtr mte x_train x_test) seg"
    "\<And>v. r = Inr v \<Longrightarrow> v = (x_train, x_test, ytr, yte) \<and> next_oid k' = next_oid k
           \<and> seg = returned (s_split b l m xtr xte ytr yte mtr mte x_train x_test)"
proof -
  have "\<exists>xtr xte ytr yte mtr mte x_train x_test seg. trace k' = trace k @ seg
           \<and> cut (s_split b l m xtr xte ytr yte mtr mte x_train x_test) seg
           \<and> (\<forall>v. r = Inr v \<longrightarrow> v = (x_train, x_test, ytr, yte) \<and> next_oid k' = next_oid k
                 \<and> seg = returned (s_split b l m xtr xte ytr yte mtr mte x_train x_test))"
    using assms unfolding cell_split_def do_train_test_split_def do_scale_descriptors_def
      s_split_def
    by (elim case_prod_stepE bndE libE retE) (auto intro!: exI cut.intros)
  then show ?thesis using that by blast
qed

lemma train_instance_wrapperE:
  assumes "train_instance_wrapper L label x_train x_test y_train y_test k = (r, k')"
  obtains p s seg where "trace k' = trace k @ seg"
    "cut (s_train L label (next_oid k) x_train x_test y_train y_test p s) seg"
    "\<And>v. r = Inr v \<Longrightarrow> fst v = next_oid k \<and> next_oid k' = Suc (next_oid k)
           \<and> seg = returned (s_train L label (next_oid k) x_train x_test y_train y_test p s)"
proof -
  have "\<exists>p s seg. trace k' = trace k @ seg
           \<and> cut (s_train L label (next_oid k) x_train x_test y_train y_test p s) seg
           \<and> (\<forall>v. r = Inr v \<longrightarrow> fst v = next_oid k \<and> next_oid k' = Suc (next_oid k)
                 \<and> seg = returned (s_train L label (next_oid k) x_train x_test y_train y_test p s))"
    using assms unfolding train_instance_wrapper_def do_fit_def do_predict_def do_r2_score_def
      new_InstanceWrapperMLPRegressor_def s_train_def
    by (elim case_prod_stepE bndE make_ndimE libE constructE py_printE retE)
       (auto intro!: exI cut.intros)
  then show ?thesis using that by blast
qed

lemma cell_attentionE:
  assumes "cell_attention L x_train x_test y_train y_test k = (r, k')"
  obtains p s seg where "trace k' = trace k @ seg"
    "cut (s_attention L (next_oid k) x_train x_test y_train y_test p s) seg"
    "\<And>v. r = Inr v \<Longrightarrow> fst v = next_oid k \<and> next_oid k' = Suc (next_oid k)
           \<and> seg = returned (s_attention L (next_oid k) x_train x_test y_train y_test p s)"
proof -
  have "\<exists>p s seg. trace k' = trace k @ seg
           \<and> cut (s_attention L (next_oid k) x_train x_test y_train y_test p s) seg
           \<and> (\<forall>v. r = Inr v \<longrightarrow> fst v = next_oid k \<and> next_oid k' = Suc (next_oid k)
                 \<and> seg = returned (s_attention L (next_oid k) x_train x_test y_train y_test p s))"
    using assms unfolding cell_attention_def do_fit_def do_predict_def do_r2_score_def
      new_AttentionNetRegressor_def s_attention_def
    by (elim case_prod_stepE bndE make_ndimE libE constructE py_printE retE)
       (auto intro!: exI cut.intros)
  then show ?thesis using that by blast
qed

lemma cell_weightsE:
  assumes "cell_weights L att_net x_test k = (r, k')"
  obtains iw seg where "trace k' = trace k @ seg"
    "cut (s_weights (fst att_net) x_test iw) seg"
    "\<And>v. r = Inr v \<Longrightarrow> next_oid k' = next_oid k
           \<and> seg = returned (s_weights (fst att_net) x_test iw)"
proof -
  have "\<exists>iw seg. trace k' = trace k @ seg
           \<and> cut (s_weights (fst att_net) x_test iw) seg
           \<and> (\<forall>v. r = Inr v \<longrightarrow> next_oid k' = next_oid k
                 \<and> seg = returned (s_weights (fst att_net) x_test iw))"
    using assms unfolding cell_weights_def do_get_instance_weights_def do_sns_set_def
      do_sns_barplot_def do_plot_set_def s_weights_def
    by (elim case_prod_stepE bndE libE py_index_2E retE) (auto intro!: exI cut.intros)
  then show ?thesis using that by blast
qed

lemma cell_singleE:
  assumes "cell_single L k = (r, k')"
  obtains b l m xtr xte ytr yte mtr mte x_train x_test p s seg where
    "trace k' = trace k @ seg"
    "cut (s_calc L 1 b l m @ s_split b l m xtr xte ytr yte mtr mte x_train x_test
          @ s_train L ''3D/SI/Net: r2_score test = '' (next_oid k) x_train x_test ytr yte p s) seg"
    "r = Inr () \<Longrightarrow> seg = returned (s_calc L 1 b l m)
          @ returned (s_split b l m xtr xte ytr yte mtr mte x_train x_test)
          @ returned (s_train L ''3D/SI/Net: r2_score test = '' (next_oid k) x_train x_test ytr yte p s)"
proof -
  have "\<exists>b l m xtr xte ytr yte mtr mte x_train x_test p s seg.
    trace k' = trace k @ seg \<and>
    cut (s_calc L 1 b l m @ s_split b l m xtr xte ytr yte mtr mte x_train x_test
          @ s_train L ''3D/SI/Net: r2_score test = '' (next_oid k) x_train x_test ytr yte p s) seg \<and>
    (r = Inr () \<longrightarrow> seg = returned (s_calc L 1 b l m)
          @ returned (s_split b l m xtr xte ytr yte mtr mte x_train x_test)
          @ returned (s_train L ''3D/SI/Net: r2_score test = '' (next_oid k) x_train x_test ytr yte p s))"
    using assms unfolding cell_single_def
    apply (elim case_prod_stepE bndE do_calcE reportE cell_splitE train_instance_wrapperE retE;
           clarsimp simp: s_calc_def; intro exI conjI impI)
    apply ((rule refl | assumption | rule cut.step cut.raised cut_append_ok cut.stop cut_returned | (rule cut_append_fail, assumption))+)
    done
  then show ?thesis using that by blast
qed


lemma notebook_log:
  assumes "notebook L k = (r, k')" "next_oid k = 0"
  shows "\<exists>b l m xtr xte ytr yte mtr mte x_train x_test p1 r1 p2 r2 iw
            b' l' m' xtr' xte' ytr' yte' mtr' mte' x_train' x_test' p3 r3 seg.
          trace k' = trace k @ seg \<and>
          cut (notebook_script L b l m xtr xte ytr yte mtr mte x_train x_test p1 r1 p2 r2 iw
                 b' l' m' xtr' xte' ytr' yte' mtr' mte' x_train' x_test' p3 r3) seg \<and>
          (r = Inr () \<longrightarrow> seg = returned
              (notebook_script L b l m xtr xte ytr yte mtr mte x_train x_test p1 r1 p2 r2 iw
                 b' l' m' xtr' xte' ytr' yte' mtr' mte' x_train' x_test' p3 r3)) \<and>
          seg \<noteq> []"
  using assms unfolding notebook_def cell_instance_wrapper_def notebook_script_def
  apply (elim case_prod_stepE bndE cell_descriptorsE cell_splitE train_instance_wrapperE
           cell_attentionE cell_weightsE cell_singleE retE;
         clarsimp simp: numeral_2_eq_2; intro exI conjI impI)
  apply ((rule refl | assumption | rule cut_append_ok cut_returned
          | (rule cut_append_fail, assumption) | (rule cut_append_fail2, assumption) | simp)+)
  done

subsection \<open>The log of a run\<close>

lemma run_script:
  "\<exists>b l m xtr xte ytr yte mtr mte x_train x_test p1 r1 p2 r2 iw
      b' l' m' xtr' xte' ytr' yte' mtr' mte' x_train' x_test' p3 r3.
     cut (notebook_script L b l m xtr xte ytr yte mtr mte x_train x_test p1 r1 p2 r2 iw
                 b' l' m' xtr' xte' ytr' yte' mtr' mte' x_train' x_test' p3 r3) (calls L w)
     \<and> (completes L w \<longrightarrow> calls L w = returned
              (notebook_script L b l m xtr xte ytr yte mtr mte x_train x_test p1 r1 p2 r2 iw
                 b' l' m' xtr' xte' ytr' yte' mtr' mte' x_train' x_test' p3 r3))
     \<and> calls L w \<noteq> []"
proof -
  obtain r k' where run: "notebook L (fresh_kernel w) = (r, k')"
    by fastforce
  from run have "\<exists>b l m xtr xte ytr yte mtr mte x_train x_test p1 r1 p2 r2 iw
            b' l' m' xtr' xte' ytr' yte' mtr' mte' x_train' x_test' p3 r3 seg.
          trace k' = trace (fresh_kernel w) @ seg \<and>
          cut (notebook_script L b l m xtr xte ytr yte mtr mte x_train x_test p1 r1 p2 r2 iw
                 b' l' m' xtr' xte' ytr' yte' mtr' mte' x_train' x_test' p3 r3) seg \<and>
          (r = Inr () \<longrightarrow> seg = returned
              (notebook_script L b l m xtr xte ytr yte mtr mte x_train x_test p1 r1 p2 r2 iw
                 b' l' m' xtr' xte' ytr' yte' mtr' mte' x_train' x_test' p3 r3)) \<and>
          seg \<noteq> []"
    by (rule notebook_log) (simp add: fresh_kernel_def)
  then show ?thesis
    using run by (simp add: calls_def completes_def run_def fresh_kernel_def)
qed

lemmas script_defs = notebook_script_def s_mkdir_def s_calc_def s_split_def s_train_def
  s_attention_def s_weights_def

lemma cut_kinds: "cut s t \<Longrightarrow> kinds t = take (length t) (map (\<lambda>e. kind (fst e)) s)"
  by (induction rule: cut.induct) (auto simp: kinds_def)


lemma script_kinds:
  "map (\<lambda>e. kind (fst e))
     (notebook_script L b l m xtr xte ytr yte mtr mte x_train x_test p1 r1 p2 r2 iw
        b' l' m' xtr' xte' ytr' yte' mtr' mte' x_train' x_test' p3 r3) = notebook_order"
  by (simp add: script_defs notebook_order_def report_line_def)

lemma script_length:
  "length (notebook_script L b l m xtr xte ytr yte mtr mte x_train x_test p1 r1 p2 r2 iw
        b' l' m' xtr' xte' ytr' yte' mtr' mte' x_train' x_test' p3 r3) = 28"
  by (simp add: script_defs)

lemma all_steps_nth:
  "all_steps Q h s \<Longrightarrow> k < length s \<Longrightarrow> Q (h @ returned (take k s)) (fst (s ! k))"
proof (induction s arbitrary: h k)
  case Nil
  then show ?case by simp
next
  case (Cons a s)
  obtain c r where a: "a = (c, r)" by (cases a)
  show ?case
  proof (cases k)
    case 0
    with Cons.prems a show ?thesis by simp
  next
    case (Suc j)
    with Cons.prems a have "all_steps Q (h @ [(c, Returned r)]) s" "j < length s"
      by simp_all
    from Cons.IH [OF this] show ?thesis using Suc a by simp
  qed
qed

lemma cut_all_steps:
  assumes "cut s t" "all_steps Q [] s" "k < length t"
  shows "Q (take k t) (fst (t ! k))"
proof -
  from cut_length [OF assms(1)] assms(3) have "k < length s" by simp
  from all_steps_nth [OF assms(2) this] cut_nth [OF assms(1,3)] show ?thesis by simp
qed

lemma every_call:
  assumes "\<And>b l m xtr xte ytr yte mtr mte x_train x_test p1 r1 p2 r2 iw
      b' l' m' xtr' xte' ytr' yte' mtr' mte' x_train' x_test' p3 r3.
      all_steps Q [] (notebook_script L b l m xtr xte ytr yte mtr mte x_train x_test p1 r1 p2 r2 iw
                 b' l' m' xtr' xte' ytr' yte' mtr' mte' x_train' x_test' p3 r3)"
    and "k < length (calls L w)"
  shows "Q (take k (calls L w)) (fst (calls L w ! k))"
proof -
  from run_script [of L w]
  obtain b l m xtr xte ytr yte mtr mte x_train x_test p1 r1 p2 r2 iw
      b' l' m' xtr' xte' ytr' yte' mtr' mte' x_train' x_test' p3 r3
    where "cut (notebook_script L b l m xtr xte ytr yte mtr mte x_train x_test p1 r1 p2 r2 iw
                 b' l' m' xtr' xte' ytr' yte' mtr' mte' x_train' x_test' p3 r3) (calls L w)"
    by (elim exE conjE) (rule that)
  from cut_all_steps [OF this assms(1) assms(2)] show ?thesis .
qed

lemma completed_run:
  assumes "completes L w"
    and "\<And>b l m xtr xte ytr yte mtr mte x_train x_test p1 r1 p2 r2 iw
      b' l' m' xtr' xte' ytr' yte' mtr' mte' x_train' x_test' p3 r3.
      P (returned (notebook_script L b l m xtr xte ytr yte mtr mte x_train x_test p1 r1 p2 r2 iw
                 b' l' m' xtr' xte' ytr' yte' mtr' mte' x_train' x_test' p3 r3))"
  shows "P (calls L w)"
proof -
  from run_script [of L w]
  obtain b l m xtr xte ytr yte mtr mte x_train x_test p1 r1 p2 r2 iw
      b' l' m' xtr' xte' ytr' yte' mtr' mte' x_train' x_test' p3 r3
    where "completes L w \<longrightarrow> calls L w = returned
              (notebook_script L b l m xtr xte ytr yte mtr mte x_train x_test p1 r1 p2 r2 iw
                 b' l' m' xtr' xte' ytr' yte' mtr' mte' x_train' x_test' p3 r3)"
    by (elim exE conjE) (rule that)
  with assms(1) assms(2) show ?thesis by simp
qed

lemma run_shape:
  "calls L w \<noteq> [] \<and> fst (hd (calls L w)) = Mkdir ''descriptors''
   \<and> length (calls L w) \<le> 28
   \<and> kinds (calls L w) = take (length (calls L w)) notebook_order"
proof -
  from run_script [of L w]
  obtain b l m xtr xte ytr yte mtr mte x_train x_test p1 r1 p2 r2 iw
      b' l' m' xtr' xte' ytr' yte' mtr' mte' x_train' x_test' p3 r3
    where c: "cut (notebook_script L b l m xtr xte ytr yte mtr mte x_train x_test p1 r1 p2 r2 iw
                 b' l' m' xtr' xte' ytr' yte' mtr' mte' x_train' x_test' p3 r3) (calls L w)"
      and n: "calls L w \<noteq> []"
    by (elim exE conjE) (rule that)
  from n have "0 < length (calls L w)" by simp
  from cut_nth [OF c this] n have "fst (hd (calls L w)) = Mkdir ''descriptors''"
    by (simp add: hd_conv_nth script_defs descriptors_folder_def)
  moreover from cut_length [OF c] have "length (calls L w) \<le> 28"
    by (simp add: script_length)
  moreover from cut_kinds [OF c] have "kinds (calls L w) = take (length (calls L w)) notebook_order"
    by (simp add: script_kinds)
  ultimately show ?thesis using n by simp
qed

lemmas log_defs = kinds_def latest_def raw_data_def split_data_def scaled_data_def
  created_def count_where_def List.map_filter_def

lemmas run_defs = run_def notebook_def cell_descriptors_def cell_split_def
    cell_instance_wrapper_def train_instance_wrapper_def cell_attention_def cell_weights_def
    cell_single_def report_def make_ndim_def
    do_mkdir_def do_calc_3d_pmapper_def do_train_test_split_def do_scale_descriptors_def
    new_InstanceWrapperMLPRegressor_def new_AttentionNetRegressor_def do_fit_def do_predict_def
    do_get_instance_weights_def do_r2_score_def do_sns_set_def do_sns_barplot_def do_plot_set_def

lemma demo_run:
  "run demo_libs demo_world =
     (Inr (),
      \<lparr>trace =
         [(Mkdir ''descriptors'', Returned RNone),
          (Calc3dPmapper ''datasets/CHEMBL1075104.smi'' 100 False ''descriptors'' 10,
           Returned (RDescriptors [1, 2, 3, 4] [5, 6, 7, 8] [9, 10, 11, 12])),
          (Print ''There are 4 molecules encoded with 5 pmapper descriptors'', Returned RNone),
          (TrainTestSplit [1, 2, 3, 4] [5, 6, 7, 8] [9, 10, 11, 12] 42,
           Returned (RSplit [1, 2, 3] [4] [5, 6, 7] [8] [9, 10, 11] [12])),
          (ScaleDescriptors [1, 2, 3] [4], Returned (RScaled [2, 3, 4] [5])),
          (NewInstanceWrapperMLPRegressor [5, 256, 128, 64] False, Returned (RObject 0)),
          (Fit 0 [2, 3, 4] [5, 6, 7]
             \<lparr>hp_n_epoch = 500, hp_batch_size = 128, hp_weight_decay = 1 / 100,
              hp_lr = 1 / 1000, hp_instance_dropout = None\<rparr>, Returned RNone),
          (Predict 0 [5], Returned (RPredictions [6])),
          (R2Score [8] [6], Returned (RScore 1)),
          (Print ''3D/MI/Instance-Wrapper: r2_score test = 1.00'', Returned RNone),
          (NewAttentionNetRegressor [5, 256, 128, 64] [64] False, Returned (RObject 1)),
          (Fit 1 [2, 3, 4] [5, 6, 7]
             \<lparr>hp_n_epoch = 500, hp_batch_size = 128, hp_weight_decay = 1 / 100,
              hp_lr = 1 / 1000, hp_instance_dropout = Some (95 / 100)\<rparr>, Returned RNone),
          (Predict 1 [5], Returned (RPredictions [6])),
          (R2Score [8] [6], Returned (RScore 1)),
          (Print ''3D/MI/Bag-AttentionNet: r2_score test = 1.00'', Returned RNone),
          (GetInstanceWeights 1 [5], Returned (RWeights [[1], [1, 2], [1, 2, 3]])),
          (SnsSet (25, 8), Returned RNone),
          (SnsBarplot [0, 1, 2] [1, 2, 3], Returned RAxes),
          (PlotSet ''Conformation index'' ''Attention weight'', Returned RNone),
          (Calc3dPmapper ''datasets/CHEMBL1075104.smi'' 1 False ''descriptors'' 10,
           Returned (RDescriptors [1, 2, 3, 4] [5, 6, 7, 8] [9, 10, 11, 12])),
          (Print ''There are 4 molecules encoded with 5 pmapper descriptors'', Returned RNone),
          (TrainTestSplit [1, 2, 3, 4] [5, 6, 7, 8] [9, 10, 11, 12] 42,
           Returned (RSplit [1, 2, 3] [4] [5, 6, 7] [8] [9, 10, 11] [12])),
          (ScaleDescriptors [1, 2, 3] [4], Returned (RScaled [2, 3, 4] [5])),
          (NewInstanceWrapperMLPRegressor [5, 256, 128, 64] False, Returned (RObject 2)),
          (Fit 2 [2, 3, 4] [5, 6, 7]
             \<lparr>hp_n_epoch = 500, hp_batch_size = 128, hp_weight_decay = 1 / 100,
              hp_lr = 1 / 1000, hp_instance_dropout = None\<rparr>, Returned RNone),
          (Predict 2 [5], Returned (RPredictions [6])),
          (R2Score [8] [6], Returned (RScore 1)),
          (Print ''3D/SI/Net: r2_score test = 1.00'', Returned RNone)],
       world =
         \<lparr>paths = {''descriptors''},
          stdout =
            [''There are 4 molecules encoded with 5 pmapper descriptors'',
             ''3D/MI/Instance-Wrapper: r2_score test = 1.00'',
             ''3D/MI/Bag-AttentionNet: r2_score test = 1.00'',
             ''There are 4 molecules encoded with 5 pmapper descriptors'',
             ''3D/SI/Net: r2_score test = 1.00''],
          ext = ()\<rparr>,
       next_oid = 3\<rparr>)"
  unfolding run_defs
  by (simp add: bnd_def ret_def raise_def lib_def construct_def py_print_def py_index_def
    fresh_kernel_def demo_libs_def demo_world_def os_mkdir_def descriptors_folder_def
    dataset_file_def nconfs_def ncpu_def n_epoch_def batch_size_def lr_def weight_decay_def
    init_cuda_def det_ndim_def instance_dropout_def show_nat.simps digit_def upt_rec)

lemma demo_completes: "completes demo_libs demo_world"
  by (simp add: completes_def demo_run)

subsection \<open>What a run does to the outside world\<close>













subsection \<open>The source text\<close>

lemma symbol_table_eq:
  "symbol_table =
     [(''os'', [''os'']),
      (''calc_3d_pmapper'', [''miqsar'', ''utils'']),
      (''train_test_split'', [''sklearn'', ''model_selection'']),
      (''scale_descriptors'', [''miqsar'', ''utils'']),
      (''BagWrapperMLPRegressor'', [''miqsar'', ''estimators'', ''wrappers'']),
      (''InstanceWrapperMLPRegressor'', [''miqsar'', ''estimators'', ''wrappers'']),
      (''AttentionNetRegressor'', [''miqsar'', ''estimators'', ''attention_nets'']),
      (''BagNetRegressor'', [''miqsar'', ''estimators'', ''mi_nets'']),
      (''InstanceNetRegressor'', [''miqsar'', ''estimators'', ''mi_nets'']),
      (''r2_score'', [''sklearn'', ''metrics'']),
      (''sns'', [''seaborn''])]"
  by code_simp

lemma no_keywords:
  "filter (\<lambda>w. w \<in> set (defining_keywords @ control_keywords)) notebook_words = []"
  by code_simp

lemma package_of_simps:
  "package_of ''calc_3d_pmapper'' = Some ''miqsar''"
  "package_of ''scale_descriptors'' = Some ''miqsar''"
  "package_of ''InstanceWrapperMLPRegressor'' = Some ''miqsar''"
  "package_of ''AttentionNetRegressor'' = Some ''miqsar''"
  "package_of ''train_test_split'' = Some ''sklearn''"
  "package_of ''r2_score'' = Some ''sklearn''"
  by (simp_all add: package_of_def symbol_table_eq)

subsection \<open>The arguments of the split\<close>

text \<open>
  Both \<^verbatim>\<open>train_test_split\<close> calls pass \<^verbatim>\<open>random_state=42\<close> and the three sequences of one
  \<^verbatim>\<open>calc_3d_pmapper\<close> call. What the function does with them is the library's business.
\<close>

lemma split_calls_pass_random_state_42:
  assumes "k < length (calls L w)" "fst (calls L w ! k) = TrainTestSplit b l m rs"
  shows "rs = 42 \<and> raw_data (take k (calls L w)) = Some (b, l, m)"
  using every_call [where Q = "\<lambda>t c. \<forall>b l m rs. c = TrainTestSplit b l m rs
             \<longrightarrow> rs = 42 \<and> raw_data t = Some (b, l, m)", OF _ assms(1)] assms(2)
  by (simp add: script_defs log_defs report_line_def)

section \<open>The claims\<close>

text \<open>
  C7. The notebook is straight-line code. No keyword of a loop, a branch, an exception
  handler or a function or class definition occurs in the code cells, so the cells are a
  sequence of assignments and calls. Accordingly, the library calls being functions that
  return, a run makes at most 28 calls, one for each call
  written in the cells, whatever the libraries return; a run that raises nothing makes
  exactly these 28 calls; and every run ends, either normally or with the exception of the
  first statement that raises.
\<close>

theorem notebook_is_straight_line:
  "filter (\<lambda>w. w \<in> set (control_keywords @ defining_keywords)) notebook_words = []
   \<and> length (calls L w) \<le> 28
   \<and> (completes L w \<longrightarrow> length (calls L w) = 28)
   \<and> (completes L w \<or> (\<exists>e. fst (run L w) = Inl e))"
proof -
  have "filter (\<lambda>w. w \<in> set (control_keywords @ defining_keywords)) notebook_words = []"
    using no_keywords by (auto simp: filter_empty_conv)
  moreover have "length (calls L w) \<le> 28"
    using run_shape [of L w] by simp
  moreover have "completes L w \<longrightarrow> length (calls L w) = 28"
    by (auto intro: completed_run simp: script_length)
  moreover have "completes L w \<or> (\<exists>e. fst (run L w) = Inl e)"
    by (cases "fst (run L w)") (auto simp: completes_def)
  ultimately show ?thesis by blast
qed

theorem notebook_is_straight_line_witness:
  "completes demo_libs demo_world \<and> length (calls demo_libs demo_world) = 28"
  using notebook_is_straight_line [of demo_libs demo_world] demo_completes by simp











text \<open>
  C2. The code cells contain no \<^verbatim>\<open>def\<close>, \<^verbatim>\<open>class\<close> or \<^verbatim>\<open>lambda\<close>: the notebook defines no
  function or class, so it implements no component of its own. Its imports come from
  \<^verbatim>\<open>os\<close>, \<^verbatim>\<open>miqsar\<close>, \<^verbatim>\<open>sklearn\<close> and \<^verbatim>\<open>seaborn\<close> only. Every call that computes
  descriptors, splits or scales them, creates or trains an estimator, predicts or scores
  goes through a name imported from \<^verbatim>\<open>miqsar\<close> or \<^verbatim>\<open>sklearn\<close>. The number of processes,
  \<^verbatim>\<open>ncpu = 10\<close>, is handed to \<^verbatim>\<open>calc_3d_pmapper\<close> as it is.
\<close>

theorem notebook_only_calls_libraries:
  "filter (\<lambda>w. w \<in> set defining_keywords) notebook_words = []
   \<and> set (map (\<lambda>(name, module). hd module) symbol_table)
        = {''os'', ''miqsar'', ''sklearn'', ''seaborn''}
   \<and> (\<forall>k<length (calls L w).
        (kind (fst (calls L w ! k)) \<in> {KCalc, KSplit, KScale, KNew, KFit, KPredict, KR2, KWeights}
           \<longrightarrow> (\<exists>name. callee (created (take k (calls L w))) (fst (calls L w ! k)) = Some name
                  \<and> package_of name \<in> {Some ''miqsar'', Some ''sklearn''}))
        \<and> (\<forall>f nc st p cpu. fst (calls L w ! k) = Calc3dPmapper f nc st p cpu \<longrightarrow> cpu = 10))"
proof -
  have "filter (\<lambda>w. w \<in> set defining_keywords) notebook_words = []"
    using no_keywords by (auto simp: filter_empty_conv)
  moreover have "set (map (\<lambda>(name, module). hd module) symbol_table)
        = {''os'', ''miqsar'', ''sklearn'', ''seaborn''}"
    by (simp add: symbol_table_eq) blast
  moreover have "(kind (fst (calls L w ! k)) \<in> {KCalc, KSplit, KScale, KNew, KFit, KPredict, KR2, KWeights}
           \<longrightarrow> (\<exists>name. callee (created (take k (calls L w))) (fst (calls L w ! k)) = Some name
                  \<and> package_of name \<in> {Some ''miqsar'', Some ''sklearn''}))
        \<and> (\<forall>f nc st p cpu. fst (calls L w ! k) = Calc3dPmapper f nc st p cpu \<longrightarrow> cpu = 10)"
    if "k < length (calls L w)" for k
    by (rule every_call [where Q = "\<lambda>t c.
         (kind c \<in> {KCalc, KSplit, KScale, KNew, KFit, KPredict, KR2, KWeights}
           \<longrightarrow> (\<exists>name. callee (created t) c = Some name
                  \<and> package_of name \<in> {Some ''miqsar'', Some ''sklearn''}))
        \<and> (\<forall>f nc st p cpu. c = Calc3dPmapper f nc st p cpu \<longrightarrow> cpu = 10)", OF _ that])
       (simp add: script_defs log_defs report_line_def package_of_simps ncpu_def)
  ultimately show ?thesis by blast
qed

theorem notebook_only_calls_libraries_witness:
  "11 < length (calls demo_libs demo_world)
   \<and> kind (fst (calls demo_libs demo_world ! 11)) = KFit
   \<and> callee (created (take 11 (calls demo_libs demo_world))) (fst (calls demo_libs demo_world ! 11))
       = Some ''AttentionNetRegressor''
   \<and> package_of ''AttentionNetRegressor'' = Some ''miqsar''
   \<and> fst (calls demo_libs demo_world ! 1)
         = Calc3dPmapper ''datasets/CHEMBL1075104.smi'' 100 False ''descriptors'' 10"
  using notebook_only_calls_libraries [of demo_libs demo_world]
  by (simp add: calls_def demo_run log_defs package_of_simps)




end
